theory Spec2Isabelle
  imports Complex_Main
begin

section \<open>Data model of the image generation page\<close>

text \<open>
  The component \<open>GenerateImageComponent\<close> drives one image generation job: it submits
  the form as generation options, polls the job once per second and materialises the
  result. Its collaborators (the horde API client, the local database, the HTTP client,
  the message service and the browser's object URL store) are outside the component;
  here they are an explicit environment (what they answer) and an explicit part of the
  state (what they hold), and every call on them, like every write of a signal, is logged
  in program order.

  A JavaScript \<open>number\<close> is modelled as a rational: the component only stores,
  copies and compares numbers. A \<open>Blob\<close> is its bytes. An object URL is the index
  of its creation by the browser's URL store.
\<close>

type_synonym number = rat
type_synonym blob = string
type_synonym object_url = nat

text \<open>The enum \<open>Sampler\<close>; the component names one member, \<open>k_dpmpp_sde\<close>.\<close>

datatype Sampler = k_dpmpp_sde | other_sampler string

text \<open>\<open>GenerationOptions\<close>, as built by \<open>formAsOptions\<close>.\<close>

record GenerationOptions =
  o_prompt :: string
  o_negativePrompt :: "string option"
  o_sampler :: Sampler
  o_cfgScale :: number
  o_denoisingStrength :: number
  o_height :: number
  o_width :: number
  o_steps :: number
  o_model :: string
  o_karras :: bool

text \<open>
  \<open>this.form.value\<close>: every control of the form group can hold \<open>null\<close>, which is
  why \<open>formAsOptions\<close> gives each field a default.
\<close>

record FormValue =
  f_prompt :: "string option"
  f_negativePrompt :: "string option"
  f_sampler :: "Sampler option"
  f_cfgScale :: "number option"
  f_denoisingStrength :: "number option"
  f_height :: "number option"
  f_width :: "number option"
  f_steps :: "number option"
  f_model :: "string option"

text \<open>
  Modelled from the spec: the type \<open>JobInProgress\<close> (types/db/job-in-progress) is
  "an identifier plus submission metadata returned by the API". The component reads
  its \<open>id\<close> only.
\<close>

record JobInProgress =
  job_id :: string
  job_submission :: string

text \<open>\<open>JobMetadata\<close>: \<open>{requestId, width, height}\<close>.\<close>

record JobMetadata =
  requestId :: string
  md_width :: number
  md_height :: number

text \<open>
  Modelled from the spec: \<open>RequestStatusCheck\<close> is \<open>{is_possible, done, ...}\<close>; the
  component reads these two fields. The field \<open>done\<close> is \<open>is_done\<close> here.
\<close>

record RequestStatusCheck =
  is_possible :: bool
  is_done :: bool

text \<open>One entry of \<open>RequestStatusFull.generations\<close>, with the fields the component reads.\<close>

record GenerationResult =
  img :: string
  worker_id :: string
  worker_name :: string
  g_model :: string
  g_seed :: string
  g_id :: string
  g_censored :: bool

record RequestStatusFull =
  generations :: "GenerationResult list"
  kudos :: number

text \<open>The interface \<open>Result\<close> of the component.\<close>

record Result =
  r_width :: number
  r_height :: number
  source :: object_url
  workerId :: string
  workerName :: string
  r_model :: string
  r_seed :: string
  r_id :: string
  r_censored :: bool
  r_kudos :: number

text \<open>
  An API response: the component tests \<open>response.success\<close> and then reads either
  \<open>successResponse\<close> or \<open>errorResponse\<close> (\<open>message\<close> and \<open>rc\<close>).
\<close>

record ErrorResponse =
  message :: string
  rc :: string

datatype 'a ApiResponse = Success 'a | Failure ErrorResponse

text \<open>
  The outcome of \<open>toPromise(httpClient.get(url, {observe: 'response', responseType: 'blob'}))\<close>:
  the promise resolves to a response whose body is a blob or \<open>null\<close>, or it is rejected
  (the request failed).
\<close>

datatype fetch_outcome = Resolved "blob option" | Rejected

text \<open>The messages handed to \<open>messageService.error\<close>, by translation key.\<close>

datatype user_message =
    app_error_form_invalid
  | app_error_generation_in_progress
  | app_error_api_error string string
  | app_error_generate_impossible
  | app_error_image_download_failed

text \<open>Every effect of the component, in program order.\<close>

datatype event =
    ApiCheckGenerationStatus JobInProgress
  | ApiCancelJob JobInProgress
  | ApiGetGeneratedImageResult JobInProgress
  | ApiGenerateImage GenerationOptions
  | DbGetJobsInProgress
  | DbAddInProgressJob JobInProgress
  | DbDeleteInProgressJob JobInProgress
  | DbGetJobMetadata JobInProgress
  | DbStoreJobMetadata JobMetadata
  | HttpGet string
  | MessageError user_message
  | CreateObjectURL blob object_url
  | RevokeObjectURL object_url
  | ConsoleLog RequestStatusFull
  | SetLoading bool
  | SetInProgress "JobInProgress option"
  | SetResult "Result option"
  | SetRequestStatus "RequestStatusCheck option"

text \<open>How an activation of a callback ends: it returns, or an exception escapes it.\<close>

datatype js_error = JobCannotBeNull | TypeError | FetchRejected

datatype outcome = Returned | Threw js_error

text \<open>
  The state: the signals and the form of the component, what the database holds, the
  browser's object URLs, and the log of effects.
\<close>

record state =
  loading :: bool
  inProgress :: "JobInProgress option"
  result :: "Result option"
  requestStatus :: "RequestStatusCheck option"
  form :: FormValue
  db_jobs :: "JobInProgress list"
  db_metadata :: "JobMetadata list"
  next_url :: object_url
  live_urls :: "object_url list"
  trace :: "event list"

text \<open>
  What the remote collaborators answer during one activation. The answer to
  \<open>cancelJob\<close> is not part of it: the component awaits it and drops it.
\<close>

record env =
  api_checkGenerationStatus :: "JobInProgress \<Rightarrow> RequestStatusCheck ApiResponse"
  api_getGeneratedImageResult :: "JobInProgress \<Rightarrow> RequestStatusFull ApiResponse"
  api_generateImage :: "GenerationOptions \<Rightarrow> JobInProgress ApiResponse"
  http_get :: "string \<Rightarrow> fetch_outcome"

section \<open>Effects\<close>

definition emit :: "event \<Rightarrow> state \<Rightarrow> state" where
  "emit e s = s\<lparr>trace := trace s @ [e]\<rparr>"

definition set_loading :: "bool \<Rightarrow> state \<Rightarrow> state" where
  "set_loading b s = emit (SetLoading b) (s\<lparr>loading := b\<rparr>)"

definition set_inProgress :: "JobInProgress option \<Rightarrow> state \<Rightarrow> state" where
  "set_inProgress j s = emit (SetInProgress j) (s\<lparr>inProgress := j\<rparr>)"

definition set_result :: "Result option \<Rightarrow> state \<Rightarrow> state" where
  "set_result r s = emit (SetResult r) (s\<lparr>result := r\<rparr>)"

definition set_requestStatus :: "RequestStatusCheck option \<Rightarrow> state \<Rightarrow> state" where
  "set_requestStatus c s = emit (SetRequestStatus c) (s\<lparr>requestStatus := c\<rparr>)"

definition messageService_error :: "user_message \<Rightarrow> state \<Rightarrow> state" where
  "messageService_error m s = emit (MessageError m) s"

text \<open>
  Modelled from the spec: the database service (services/database.service) is the
  "local persistence of at most one in-flight job plus its metadata", with the
  operations \<open>getJobsInProgress / addInProgressJob / deleteInProgressJob\<close> and
  \<open>getJobMetadata / storeJobMetadata\<close>. The records are a list; a job is deleted by
  its id; metadata is keyed by \<open>requestId\<close>, a later store replacing an earlier one.
\<close>

definition getJobsInProgress :: "state \<Rightarrow> JobInProgress list \<times> state" where
  "getJobsInProgress s = (db_jobs s, emit DbGetJobsInProgress s)"

definition addInProgressJob :: "JobInProgress \<Rightarrow> state \<Rightarrow> state" where
  "addInProgressJob j s = emit (DbAddInProgressJob j) (s\<lparr>db_jobs := db_jobs s @ [j]\<rparr>)"

definition deleteInProgressJob :: "JobInProgress \<Rightarrow> state \<Rightarrow> state" where
  "deleteInProgressJob j s =
     emit (DbDeleteInProgressJob j)
       (s\<lparr>db_jobs := filter (\<lambda>x. job_id x \<noteq> job_id j) (db_jobs s)\<rparr>)"

definition getJobMetadata :: "JobInProgress \<Rightarrow> state \<Rightarrow> JobMetadata option \<times> state" where
  "getJobMetadata j s =
     (find (\<lambda>m. requestId m = job_id j) (db_metadata s), emit (DbGetJobMetadata j) s)"

definition storeJobMetadata :: "JobMetadata \<Rightarrow> state \<Rightarrow> state" where
  "storeJobMetadata md s =
     emit (DbStoreJobMetadata md)
       (s\<lparr>db_metadata := md # filter (\<lambda>m. requestId m \<noteq> requestId md) (db_metadata s)\<rparr>)"

text \<open>
  The browser's object URL store: \<open>URL.createObjectURL\<close> mints a URL that was never
  handed out before, \<open>URL.revokeObjectURL\<close> releases one (and does nothing for a URL
  that is not live).
\<close>

definition createObjectURL :: "blob \<Rightarrow> state \<Rightarrow> object_url \<times> state" where
  "createObjectURL b s =
     (next_url s,
      emit (CreateObjectURL b (next_url s))
        (s\<lparr>next_url := Suc (next_url s), live_urls := next_url s # live_urls s\<rparr>))"

definition revokeObjectURL :: "object_url \<Rightarrow> state \<Rightarrow> state" where
  "revokeObjectURL u s = emit (RevokeObjectURL u) (s\<lparr>live_urls := removeAll u (live_urls s)\<rparr>)"

section \<open>The form\<close>

text \<open>
  The validators of the form group, as the framework evaluates them:
  \<open>Validators.required\<close> fails on \<open>null\<close> and on the empty string;
  \<open>Validators.min\<close> and \<open>Validators.max\<close> pass on \<open>null\<close> and compare otherwise.
\<close>

definition required_string :: "string option \<Rightarrow> bool" where
  "required_string v = (case v of None \<Rightarrow> False | Some x \<Rightarrow> x \<noteq> [])"

definition required_value :: "'a option \<Rightarrow> bool" where
  "required_value v = (case v of None \<Rightarrow> False | Some x \<Rightarrow> True)"

definition validators_min :: "number \<Rightarrow> number option \<Rightarrow> bool" where
  "validators_min m v = (case v of None \<Rightarrow> True | Some x \<Rightarrow> \<not> x < m)"

definition validators_max :: "number \<Rightarrow> number option \<Rightarrow> bool" where
  "validators_max m v = (case v of None \<Rightarrow> True | Some x \<Rightarrow> \<not> m < x)"

text \<open>
  Modelled from the spec: \<open>AppValidators.divisibleBy\<close> (helper/app-validators) makes
  height and width "multiples of 64"; like the framework's validators it passes on
  \<open>null\<close>.
\<close>

definition divisibleBy :: "int \<Rightarrow> number option \<Rightarrow> bool" where
  "divisibleBy d v =
     (case v of None \<Rightarrow> True
      | Some x \<Rightarrow> of_int (\<lfloor>x\<rfloor>) = x \<and> \<lfloor>x\<rfloor> mod d = 0)"

text \<open>\<open>this.form.valid\<close>: every validator of every control passes.\<close>

definition form_valid :: "FormValue \<Rightarrow> bool" where
  "form_valid v =
     (required_string (f_prompt v)
      \<and> required_value (f_sampler v)
      \<and> required_value (f_cfgScale v)
        \<and> validators_min 0 (f_cfgScale v) \<and> validators_max 100 (f_cfgScale v)
      \<and> validators_min (1 / 100) (f_denoisingStrength v)
        \<and> validators_max 1 (f_denoisingStrength v)
      \<and> required_value (f_height v)
        \<and> validators_min 64 (f_height v) \<and> validators_max 3072 (f_height v)
        \<and> divisibleBy 64 (f_height v)
      \<and> required_value (f_width v)
        \<and> validators_min 64 (f_width v) \<and> validators_max 3072 (f_width v)
        \<and> divisibleBy 64 (f_width v)
      \<and> required_value (f_steps v)
        \<and> validators_min 1 (f_steps v) \<and> validators_max 500 (f_steps v)
      \<and> required_string (f_model v))"

text \<open>The operator \<open>??\<close>: the left operand unless it is \<open>null\<close>.\<close>

definition nullish :: "'a option \<Rightarrow> 'a \<Rightarrow> 'a" where
  "nullish v d = (case v of None \<Rightarrow> d | Some x \<Rightarrow> x)"

definition formAsOptions :: "FormValue \<Rightarrow> GenerationOptions" where
  "formAsOptions v =
     \<lparr>o_prompt = nullish (f_prompt v) [],
      o_negativePrompt = f_negativePrompt v,
      o_sampler = nullish (f_sampler v) k_dpmpp_sde,
      o_cfgScale = nullish (f_cfgScale v) (3 / 4),
      o_denoisingStrength = nullish (f_denoisingStrength v) (3 / 4),
      o_height = nullish (f_height v) 512,
      o_width = nullish (f_width v) 512,
      o_steps = nullish (f_steps v) 30,
      o_model = nullish (f_model v) [],
      o_karras = True\<rparr>"

section \<open>The result materialiser: \<open>downloadImages\<close>\<close>

text \<open>
  \<open>Promise.all\<close>: the list of the responses when every promise resolves, rejection as
  soon as one is rejected.
\<close>

fun promise_all :: "fetch_outcome list \<Rightarrow> (blob option) list option" where
  "promise_all [] = Some []"
| "promise_all (Rejected # ps) = None"
| "promise_all (Resolved b # ps) =
     (case promise_all ps of None \<Rightarrow> None | Some bs \<Rightarrow> Some (b # bs))"

text \<open>The loop that starts one request per generation.\<close>

fun start_requests :: "GenerationResult list \<Rightarrow> state \<Rightarrow> state" where
  "start_requests [] s = s"
| "start_requests (g # gs) s = start_requests gs (emit (HttpGet (img g)) s)"

text \<open>
  \<open>responses[0].body\<close> throws a \<open>TypeError\<close> on an empty list. In the object literal
  \<open>source\<close> comes first, so the object URL is created before \<open>metadata.width\<close> is
  read, which throws when the metadata is missing. \<open>generations[0]\<close> is read only
  where \<open>responses[0]\<close> exists, so the list of generations is not empty there.
\<close>

definition downloadImages ::
  "env \<Rightarrow> RequestStatusFull \<Rightarrow> JobMetadata option \<Rightarrow> state \<Rightarrow> outcome \<times> state" where
  "downloadImages e res metadata s =
     (let gens = generations res;
          s1 = start_requests gens s
      in case promise_all (map (\<lambda>g. http_get e (img g)) gens) of
           None \<Rightarrow> (Threw FetchRejected, s1)
         | Some responses \<Rightarrow>
            (case responses of
               [] \<Rightarrow> (Threw TypeError, s1)
             | body # _ \<Rightarrow>
                (case body of
                   None \<Rightarrow> (Returned, messageService_error app_error_image_download_failed s1)
                 | Some image_blob \<Rightarrow>
                    (let s2 = emit (ConsoleLog res) s1;
                         (url, s3) = createObjectURL image_blob s2
                     in case metadata of
                          None \<Rightarrow> (Threw TypeError, s3)
                        | Some md \<Rightarrow>
                           (Returned,
                            set_result
                              (Some \<lparr>r_width = md_width md,
                                     r_height = md_height md,
                                     source = url,
                                     workerId = worker_id (hd gens),
                                     workerName = worker_name (hd gens),
                                     r_model = g_model (hd gens),
                                     r_seed = g_seed (hd gens),
                                     r_id = g_id (hd gens),
                                     r_censored = g_censored (hd gens),
                                     r_kudos = kudos res\<rparr>) s3)))))"

section \<open>The polling loop: the callback of \<open>interval(1_000)\<close>\<close>

text \<open>
  One tick, run to its end before anything else runs. Between the guard and the
  calls on \<open>this.inProgress()!\<close> of the impossible branch nothing writes the signal,
  so they read the job of the guard; the done branch reads the signal again, with
  its fallback to the database, as the source does.
\<close>

definition tick :: "env \<Rightarrow> state \<Rightarrow> outcome \<times> state" where
  "tick e s =
     (case inProgress s of
        None \<Rightarrow> (Returned, s)
      | Some j \<Rightarrow>
         (let s1 = emit (ApiCheckGenerationStatus j) s
          in case api_checkGenerationStatus e j of
               Failure err \<Rightarrow>
                 (Returned, messageService_error (app_error_api_error (message err) (rc err)) s1)
             | Success status \<Rightarrow>
                (let s2 = set_requestStatus (Some status) s1
                 in if \<not> is_possible status then
                      (let s3 = emit (ApiCancelJob j) s2;
                           s4 = deleteInProgressJob j s3;
                           s5 = set_inProgress None s4
                       in (Returned, messageService_error app_error_generate_impossible s5))
                    else if is_done status then
                      (let s3 = set_loading True s2;
                           (job, s4) =
                             (case inProgress s3 of
                                Some j' \<Rightarrow> (Some j', s3)
                              | None \<Rightarrow>
                                 (let (jobs, s') = getJobsInProgress s3
                                  in (case jobs of [] \<Rightarrow> None | x # _ \<Rightarrow> Some x, s')))
                       in case job of
                            None \<Rightarrow> (Threw JobCannotBeNull, s4)
                          | Some jb \<Rightarrow>
                             (let s5 = emit (ApiGetGeneratedImageResult jb) s4
                              in case api_getGeneratedImageResult e jb of
                                   Failure err \<Rightarrow>
                                     (Returned,
                                      set_loading False
                                        (messageService_error
                                           (app_error_api_error (message err) (rc err)) s5))
                                 | Success res \<Rightarrow>
                                    (let (metadata, s6) = getJobMetadata jb s5
                                     in case downloadImages e res metadata s6 of
                                          (Threw x, s7) \<Rightarrow> (Threw x, s7)
                                        | (Returned, s7) \<Rightarrow>
                                           (let s8 =
                                              (case inProgress s7 of
                                                 Some j'' \<Rightarrow>
                                                   set_inProgress None (deleteInProgressJob j'' s7)
                                               | None \<Rightarrow> s7)
                                            in (Returned, set_loading False s8)))))
                    else (Returned, s2))))"

section \<open>Submission: \<open>generateImage\<close>\<close>

text \<open>
  One call of \<open>generateImage\<close> with nothing else running while it awaits. The guards
  and the lines up to the API call hold no \<open>await\<close>; the call then awaits the API, the
  two writes of the database (or the message, on failure), and reads the getter
  \<open>this.formAsOptions\<close> again for the metadata. The call with other activity during
  these awaits is \<open>generateImage_interleaved\<close> below.
\<close>

definition generateImage :: "env \<Rightarrow> state \<Rightarrow> outcome \<times> state" where
  "generateImage e s =
     (if \<not> form_valid (form s) then
        (Returned, messageService_error app_error_form_invalid s)
      else if inProgress s \<noteq> None then
        (Returned, messageService_error app_error_generation_in_progress s)
      else
        (let s1 = set_loading True s;
             s2 = (case result s1 of Some r \<Rightarrow> revokeObjectURL (source r) s1 | None \<Rightarrow> s1);
             s3 = set_result None s2;
             s4 = emit (ApiGenerateImage (formAsOptions (form s3))) s3
         in case api_generateImage e (formAsOptions (form s3)) of
              Failure err \<Rightarrow>
                (Returned,
                 set_loading False
                   (messageService_error (app_error_api_error (message err) (rc err)) s4))
            | Success job \<Rightarrow>
               (let s5 = addInProgressJob job s4;
                    s6 = storeJobMetadata
                           \<lparr>requestId = job_id job,
                            md_width = o_width (formAsOptions (form s5)),
                            md_height = o_height (formAsOptions (form s5))\<rparr> s5;
                    s7 = set_inProgress (Some job) s6
                in (Returned, set_loading False s7))))"

section \<open>Runs of the component\<close>

text \<open>
  The component is activated by an emission of the interval (one tick) or by the user
  (one submission); each activation runs to its end before the next starts. An
  exception that escapes an activation rejects the promise of that activation only;
  the subscription stays, and the next activation runs all the same.
\<close>

datatype activation = Tick env | Submit env

fun activate :: "activation \<Rightarrow> state \<Rightarrow> outcome \<times> state" where
  "activate (Tick e) s = tick e s"
| "activate (Submit e) s = generateImage e s"

fun run :: "activation list \<Rightarrow> state \<Rightarrow> outcome list \<times> state" where
  "run [] s = ([], s)"
| "run (a # as) s =
     (let (out, s') = activate a s; (outs, s'') = run as s' in (out # outs, s''))"

text \<open>The calls on the horde API among a list of events.\<close>

fun is_api_call :: "event \<Rightarrow> bool" where
  "is_api_call (ApiCheckGenerationStatus j) = True"
| "is_api_call (ApiCancelJob j) = True"
| "is_api_call (ApiGetGeneratedImageResult j) = True"
| "is_api_call (ApiGenerateImage opts) = True"
| "is_api_call ev = False"

definition api_calls :: "event list \<Rightarrow> event list" where
  "api_calls evs = filter is_api_call evs"

section \<open>Submission with other activity during its awaits\<close>

text \<open>
  While a call of \<open>generateImage\<close> awaits, the event loop runs what else is due: the
  user edits the form, the interval emits, the user submits again. An edit of the form
  replaces the value of the form (its subscriber writes the stored generation options and
  the cost, which are not part of the state here); a concurrent activation is one that
  starts and ends within the await.
\<close>

datatype interruption = FormEdit FormValue | Concurrent activation

fun interrupt :: "interruption \<Rightarrow> state \<Rightarrow> state" where
  "interrupt (FormEdit v) s = s\<lparr>form := v\<rparr>"
| "interrupt (Concurrent a) s = snd (activate a s)"

fun interrupts :: "interruption list \<Rightarrow> state \<Rightarrow> state" where
  "interrupts [] s = s"
| "interrupts (d # ds) s = interrupts ds (interrupt d s)"

fun is_polling_tick :: "interruption \<Rightarrow> bool" where
  "is_polling_tick (Concurrent (Tick e)) = True"
| "is_polling_tick d = False"

text \<open>
  \<open>generateImage\<close> with \<open>d1\<close>, \<open>d2\<close> and \<open>d3\<close> running during its first, second
  and third \<open>await\<close> after the guards: the API call of line 210, then
  \<open>addInProgressJob\<close> and \<open>storeJobMetadata\<close> of lines 217 and 218 (on failure, the
  message of line 212). The options sent are those of the form at line 210; lines 220
  and 221 read the form as it is after the first two awaits; the signal is written at
  line 223 only.
\<close>

definition generateImage_interleaved ::
  "env \<Rightarrow> interruption list \<Rightarrow> interruption list \<Rightarrow> interruption list \<Rightarrow> state
     \<Rightarrow> outcome \<times> state" where
  "generateImage_interleaved e d1 d2 d3 s =
     (if \<not> form_valid (form s) then
        (Returned, messageService_error app_error_form_invalid s)
      else if inProgress s \<noteq> None then
        (Returned, messageService_error app_error_generation_in_progress s)
      else
        (let s1 = set_loading True s;
             s2 = (case result s1 of Some r \<Rightarrow> revokeObjectURL (source r) s1 | None \<Rightarrow> s1);
             s3 = set_result None s2;
             opts = formAsOptions (form s3);
             s4 = interrupts d1 (emit (ApiGenerateImage opts) s3)
         in case api_generateImage e opts of
              Failure err \<Rightarrow>
                (Returned,
                 set_loading False
                   (interrupts d2
                      (messageService_error (app_error_api_error (message err) (rc err)) s4)))
            | Success job \<Rightarrow>
               (let s5 = interrupts d2 (addInProgressJob job s4);
                    s6 = interrupts d3
                           (storeJobMetadata
                              \<lparr>requestId = job_id job,
                               md_width = o_width (formAsOptions (form s5)),
                               md_height = o_height (formAsOptions (form s5))\<rparr> s5);
                    s7 = set_inProgress (Some job) s6
                in (Returned, set_loading False s7))))"

section \<open>The field constraints of the specification\<close>





section \<open>Sample data\<close>

definition form0 :: FormValue where
  "form0 =
     \<lparr>f_prompt = Some ''a lighthouse at dusk'', f_negativePrompt = None,
      f_sampler = Some k_dpmpp_sde, f_cfgScale = Some 7, f_denoisingStrength = Some (3 / 4),
      f_height = Some 512, f_width = Some 768, f_steps = Some 30,
      f_model = Some ''stable_diffusion''\<rparr>"

definition job0 :: JobInProgress where
  "job0 = \<lparr>job_id = ''job-1'', job_submission = ''queued''\<rparr>"

definition md0 :: JobMetadata where
  "md0 = \<lparr>requestId = ''job-1'', md_width = 768, md_height = 512\<rparr>"

definition gen0 :: GenerationResult where
  "gen0 =
     \<lparr>img = ''https://img/first'', worker_id = ''w-1'', worker_name = ''alpha'',
      g_model = ''stable_diffusion'', g_seed = ''1234'', g_id = ''g-1'', g_censored = False\<rparr>"

definition gen1 :: GenerationResult where
  "gen1 =
     \<lparr>img = ''https://img/second'', worker_id = ''w-2'', worker_name = ''beta'',
      g_model = ''other_model'', g_seed = ''9999'', g_id = ''g-2'', g_censored = True\<rparr>"

definition res0 :: RequestStatusFull where
  "res0 = \<lparr>generations = [gen0, gen1], kudos = 10\<rparr>"

definition single0 :: RequestStatusFull where
  "single0 = \<lparr>generations = [gen0], kudos = 10\<rparr>"

definition shown0 :: Result where
  "shown0 =
     \<lparr>r_width = 512, r_height = 512, source = 0, workerId = ''w-0'', workerName = ''omega'',
      r_model = ''stable_diffusion'', r_seed = ''1'', r_id = ''g-0'', r_censored = False,
      r_kudos = 4\<rparr>"

text \<open>No job and no result; a job being polled; a result on display and no job.\<close>

definition idle0 :: state where
  "idle0 =
     \<lparr>loading = False, inProgress = None, result = None, requestStatus = None, form = form0,
      db_jobs = [], db_metadata = [], next_url = 0, live_urls = [], trace = []\<rparr>"

definition polling0 :: state where
  "polling0 = idle0\<lparr>inProgress := Some job0, db_jobs := [job0], db_metadata := [md0]\<rparr>"

definition displaying0 :: state where
  "displaying0 = idle0\<lparr>result := Some shown0, next_url := 1, live_urls := [0]\<rparr>"

text \<open>Collaborators that give the same answers to every call.\<close>

definition env0 ::
  "RequestStatusCheck ApiResponse \<Rightarrow> RequestStatusFull ApiResponse \<Rightarrow> fetch_outcome \<Rightarrow> env" where
  "env0 c r f =
     \<lparr>api_checkGenerationStatus = (\<lambda>j. c), api_getGeneratedImageResult = (\<lambda>j. r),
      api_generateImage = (\<lambda>opts. Success job0), http_get = (\<lambda>url. f)\<rparr>"

definition pending0 :: RequestStatusCheck where
  "pending0 = \<lparr>is_possible = True, is_done = False\<rparr>"

definition done0 :: RequestStatusCheck where
  "done0 = \<lparr>is_possible = True, is_done = True\<rparr>"


definition err0 :: ErrorResponse where
  "err0 = \<lparr>message = ''request not found'', rc = ''RequestNotFound''\<rparr>"

definition pending_env0 :: env where
  "pending_env0 = env0 (Success pending0) (Success res0) (Resolved (Some ''PNG''))"

definition done_env0 :: env where
  "done_env0 = env0 (Success done0) (Success res0) (Resolved (Some ''PNG''))"


definition failing_env0 :: env where
  "failing_env0 = env0 (Success done0) (Failure err0) (Resolved (Some ''PNG''))"

definition empty_body_env0 :: env where
  "empty_body_env0 = env0 (Success done0) (Success res0) (Resolved None)"

definition rejecting_env0 :: env where
  "rejecting_env0 = env0 (Success done0) (Success res0) Rejected"

text \<open>
  A second job and a collaborator that answers a submission with it; the form with
  another width, and with a number of steps that is not an integer; a state whose job
  is persisted and not held in memory.
\<close>

definition job1 :: JobInProgress where
  "job1 = \<lparr>job_id = ''job-2'', job_submission = ''queued''\<rparr>"

definition second_env0 :: env where
  "second_env0 = done_env0\<lparr>api_generateImage := (\<lambda>opts. Success job1)\<rparr>"

definition wide_form0 :: FormValue where
  "wide_form0 = form0\<lparr>f_width := Some 1024\<rparr>"


definition stale0 :: state where
  "stale0 = idle0\<lparr>db_jobs := [job0]\<rparr>"

section \<open>Retired object URLs\<close>

text \<open>
  An object URL is retired in a state when the URL store has minted it and no Result
  refers to it.
\<close>

definition handle_retired :: "object_url \<Rightarrow> state \<Rightarrow> bool" where
  "handle_retired u s =
     (u < next_url s \<and> (case result s of None \<Rightarrow> True | Some r \<Rightarrow> source r \<noteq> u))"

section \<open>Basic facts\<close>

lemmas effect_defs = emit_def set_loading_def set_inProgress_def set_result_def
  set_requestStatus_def messageService_error_def getJobsInProgress_def addInProgressJob_def
  deleteInProgressJob_def getJobMetadata_def storeJobMetadata_def createObjectURL_def
  revokeObjectURL_def

lemma start_requests_fields:
  "inProgress (start_requests gs s) = inProgress s"
  "db_jobs (start_requests gs s) = db_jobs s"
  "db_metadata (start_requests gs s) = db_metadata s"
  "result (start_requests gs s) = result s"
  "next_url (start_requests gs s) = next_url s"
  "live_urls (start_requests gs s) = live_urls s"
  "loading (start_requests gs s) = loading s"
  "requestStatus (start_requests gs s) = requestStatus s"
  "form (start_requests gs s) = form s"
  by (induction gs arbitrary: s; simp add: emit_def)+

lemma start_requests_trace:
  "trace (start_requests gs s) = trace s @ map (\<lambda>g. HttpGet (img g)) gs"
  by (induction gs arbitrary: s) (simp_all add: emit_def)

lemma api_calls_append: "api_calls (xs @ ys) = api_calls xs @ api_calls ys"
  by (simp add: api_calls_def)

lemma api_calls_HttpGet: "api_calls (map (\<lambda>g. HttpGet (img g)) gs) = []"
  by (induction gs) (simp_all add: api_calls_def)

lemma downloadImages_not_null_error:
  "downloadImages e res md s = (Threw x, s') \<Longrightarrow> x \<noteq> JobCannotBeNull"
  by (auto simp: downloadImages_def Let_def split: option.splits list.splits prod.splits)

lemma downloadImages_frame:
  assumes "downloadImages e res md s = (out, s')"
  shows "inProgress s' = inProgress s" "db_jobs s' = db_jobs s"
    "db_metadata s' = db_metadata s" "form s' = form s"
  using assms
  by (auto simp: downloadImages_def Let_def effect_defs start_requests_fields
      split: option.splits list.splits prod.splits)

lemma downloadImages_calls:
  assumes "downloadImages e res md s = (out, s')"
  shows "\<exists>evs. trace s' = trace s @ evs \<and> api_calls evs = []"
  using assms
  by (auto simp: downloadImages_def Let_def effect_defs start_requests_fields
      start_requests_trace api_calls_append api_calls_HttpGet api_calls_def
      split: option.splits list.splits prod.splits)

lemma tick_idle: "inProgress s = None \<Longrightarrow> tick e s = (Returned, s)"
  by (simp add: tick_def)

lemma tick_pending:
  assumes "inProgress s = Some j" "api_checkGenerationStatus e j = Success st"
    "is_possible st" "\<not> is_done st"
  shows "tick e s =
    (Returned, s\<lparr>requestStatus := Some st,
        trace := trace s @ [ApiCheckGenerationStatus j, SetRequestStatus (Some st)]\<rparr>)"
  using assms by (simp add: tick_def Let_def effect_defs)

lemma tick_done_returned:
  assumes "inProgress s = Some j" "api_checkGenerationStatus e j = Success st"
    "is_possible st" "is_done st" "api_getGeneratedImageResult e j = Success res"
    "tick e s = (Returned, s')"
  shows "inProgress s' = None" "db_jobs s' = filter (\<lambda>x. job_id x \<noteq> job_id j) (db_jobs s)"
    "\<exists>evs. trace s' = trace s @ evs \<and>
       api_calls evs = [ApiCheckGenerationStatus j, ApiGetGeneratedImageResult j]"
proof -
  let ?s6 = "s\<lparr>requestStatus := Some st, loading := True,
     trace := trace s @ [ApiCheckGenerationStatus j, SetRequestStatus (Some st), SetLoading True,
       ApiGetGeneratedImageResult j, DbGetJobMetadata j]\<rparr>"
  let ?md = "find (\<lambda>m. requestId m = job_id j) (db_metadata s)"
  obtain out s7 where d: "downloadImages e res ?md ?s6 = (out, s7)"
    by (cases "downloadImages e res ?md ?s6") auto
  have fr: "inProgress s7 = Some j" "db_jobs s7 = db_jobs s"
    using downloadImages_frame[OF d] assms(1) by simp_all
  obtain evs where evs: "trace s7 = trace ?s6 @ evs" "api_calls evs = []"
    using downloadImages_calls[OF d] by blast
  have t: "tick e s = (case out of Threw x \<Rightarrow> (Threw x, s7)
     | Returned \<Rightarrow> (Returned, set_loading False (set_inProgress None (deleteInProgressJob j s7))))"
    using assms(1-5) d fr by (simp add: tick_def Let_def effect_defs split: outcome.splits)
  with assms(6) have out: "out = Returned"
    and s': "s' = set_loading False (set_inProgress None (deleteInProgressJob j s7))"
    by (auto split: outcome.splits)
  show "inProgress s' = None" by (simp add: s' effect_defs)
  show "db_jobs s' = filter (\<lambda>x. job_id x \<noteq> job_id j) (db_jobs s)"
    by (simp add: s' effect_defs fr)
  show "\<exists>evs. trace s' = trace s @ evs \<and>
       api_calls evs = [ApiCheckGenerationStatus j, ApiGetGeneratedImageResult j]"
    using evs by (simp add: s' effect_defs api_calls_def)
qed

lemmas form_defs = form_valid_def required_string_def required_value_def validators_min_def
  validators_max_def divisibleBy_def formAsOptions_def nullish_def


lemma downloadImages_retired:
  assumes "handle_retired u s" "downloadImages e res md s = (out, s')"
  shows "handle_retired u s'"
  using assms
  by (auto simp: handle_retired_def downloadImages_def Let_def effect_defs
      start_requests_fields split: option.splits list.splits prod.splits)

lemma tick_retired:
  assumes "handle_retired u s" "tick e s = (out, s')"
  shows "handle_retired u s'"
proof -
  have frame: "\<And>s1 s2. next_url s2 = next_url s1 \<Longrightarrow> result s2 = result s1 \<Longrightarrow>
      handle_retired u s1 \<Longrightarrow> handle_retired u s2"
    by (simp add: handle_retired_def)
  have dl: "\<And>res md s1 o2 s2. downloadImages e res md s1 = (o2, s2) \<Longrightarrow>
      next_url s1 = next_url s \<Longrightarrow> result s1 = result s \<Longrightarrow> handle_retired u s2"
    using assms(1) downloadImages_retired frame by metis
  show ?thesis
    using assms
    by (auto simp: tick_def Let_def effect_defs handle_retired_def
        split: option.splits ApiResponse.splits prod.splits outcome.splits list.splits
        if_splits dest!: dl)
qed

lemma generateImage_retired:
  assumes "handle_retired u s" "generateImage e s = (out, s')"
  shows "handle_retired u s'"
  using assms
  by (auto simp: generateImage_def Let_def effect_defs handle_retired_def
      split: option.splits ApiResponse.splits if_splits)

lemma run_retired:
  "handle_retired u s \<Longrightarrow> run as s = (outs, s') \<Longrightarrow> handle_retired u s'"
proof (induction as arbitrary: s outs s')
  case Nil
  then show ?case by simp
next
  case (Cons a as)
  obtain out s1 where a: "activate a s = (out, s1)" by (cases "activate a s") auto
  obtain outs1 s2 where r: "run as s1 = (outs1, s2)" by (cases "run as s1") auto
  have "handle_retired u s1"
    using a Cons.prems(1) by (cases a) (auto intro: tick_retired generateImage_retired)
  then have "handle_retired u s2" using Cons.IH r by blast
  with Cons.prems(2) a r show ?case by simp
qed

lemma downloadImages_rejected:
  assumes "promise_all (map (\<lambda>x. http_get e (img x)) (generations res)) = None"
  shows "downloadImages e res md s = (Threw FetchRejected, start_requests (generations res) s)"
  using assms by (simp add: downloadImages_def Let_def)

lemma downloadImages_builds:
  assumes "generations res = g # rest"
    "promise_all (map (\<lambda>x. http_get e (img x)) (generations res)) = Some (Some b # bodies)"
  shows "\<exists>s'. downloadImages e res (Some md) s = (Returned, s')
      \<and> result s' =
          Some \<lparr>r_width = md_width md, r_height = md_height md, source = next_url s,
                workerId = worker_id g, workerName = worker_name g, r_model = g_model g,
                r_seed = g_seed g, r_id = g_id g, r_censored = g_censored g,
                r_kudos = kudos res\<rparr>"
  using assms by (simp add: downloadImages_def Let_def effect_defs start_requests_fields)

lemma tick_never_job_null: "fst (tick e s) \<noteq> Threw JobCannotBeNull"
  by (auto simp: tick_def Let_def effect_defs dest: downloadImages_not_null_error
      split: option.splits ApiResponse.splits prod.splits outcome.splits list.splits)

lemma generateImage_returns: "fst (generateImage e s) = Returned"
  by (simp add: generateImage_def Let_def split: ApiResponse.splits)

lemma run_never_job_null: "Threw JobCannotBeNull \<notin> set (fst (run as s))"
proof (induction as arbitrary: s)
  case Nil
  then show ?case by simp
next
  case (Cons a as)
  have "fst (activate a s) \<noteq> Threw JobCannotBeNull"
    using tick_never_job_null[of _ s] generateImage_returns[of _ s] by (cases a) simp_all
  then show ?case using Cons.IH by (simp add: split_beta Let_def)
qed

lemma generateImage_interleaved_alone:
  "generateImage_interleaved e [] [] [] s = generateImage e s"
  by (simp add: generateImage_interleaved_def generateImage_def Let_def
      split: ApiResponse.splits)


lemma interrupts_ticks_idle:
  "inProgress s = None \<Longrightarrow> list_all is_polling_tick ds \<Longrightarrow> interrupts ds s = s"
proof (induction ds)
  case Nil
  then show ?case by simp
next
  case (Cons d ds)
  from Cons.prems(2) obtain e where d: "d = Concurrent (Tick e)"
    by (cases d rule: is_polling_tick.cases) auto
  have "interrupt d s = s" using Cons.prems(1) by (simp add: d tick_idle)
  then show ?case using Cons by simp
qed

section \<open>The polling loop\<close>

text \<open>
  Claim C1. A job is in progress, in memory and as the one persisted record. Three ticks
  run: the first two status checks answer not done and possible, the third answers done
  (and possible), its result fetch succeeds and the tick completes. Then the API calls of
  the run are three status checks and one result fetch, so no cancellation and exactly
  one result fetch, and afterwards no JobInProgress remains: the in-memory reference is
  cleared and no record is persisted.
\<close>

theorem polling_done_sequence:
  assumes job: "inProgress s = Some j" "db_jobs s = [j]"
    and first: "api_checkGenerationStatus e1 j = Success st1" "is_possible st1" "\<not> is_done st1"
    and second: "api_checkGenerationStatus e2 j = Success st2" "is_possible st2" "\<not> is_done st2"
    and third: "api_checkGenerationStatus e3 j = Success st3" "is_possible st3" "is_done st3"
    and fetch: "api_getGeneratedImageResult e3 j = Success res"
    and run: "run [Tick e1, Tick e2, Tick e3] s = (outs, s')"
    and completes: "outs ! 2 = Returned"
  shows "(\<exists>evs. trace s' = trace s @ evs \<and>
            api_calls evs =
              [ApiCheckGenerationStatus j, ApiCheckGenerationStatus j,
               ApiCheckGenerationStatus j, ApiGetGeneratedImageResult j])
         \<and> inProgress s' = None \<and> db_jobs s' = []"
proof -
  define s1 where "s1 = s\<lparr>requestStatus := Some st1,
        trace := trace s @ [ApiCheckGenerationStatus j, SetRequestStatus (Some st1)]\<rparr>"
  define s2 where "s2 = s1\<lparr>requestStatus := Some st2,
        trace := trace s1 @ [ApiCheckGenerationStatus j, SetRequestStatus (Some st2)]\<rparr>"
  have t1: "tick e1 s = (Returned, s1)"
    unfolding s1_def using tick_pending[OF job(1) first] .
  have job1: "inProgress s1 = Some j" using job(1) by (simp add: s1_def)
  have t2: "tick e2 s1 = (Returned, s2)"
    unfolding s2_def using tick_pending[OF job1 second] .
  have job2: "inProgress s2 = Some j" using job1 by (simp add: s2_def)
  have jobs2: "db_jobs s2 = [j]" using job(2) by (simp add: s1_def s2_def)
  have trace2: "trace s2 = trace s @ [ApiCheckGenerationStatus j, SetRequestStatus (Some st1),
      ApiCheckGenerationStatus j, SetRequestStatus (Some st2)]"
    by (simp add: s1_def s2_def)
  obtain out3 s3 where t3: "tick e3 s2 = (out3, s3)" by (cases "tick e3 s2") auto
  have r: "run [Tick e1, Tick e2, Tick e3] s = ([Returned, Returned, out3], s3)"
    by (simp add: t1 t2 t3)
  with run completes have o3: "out3 = Returned" and s3: "s3 = s'" by auto
  have t3': "tick e3 s2 = (Returned, s')" using t3 o3 s3 by simp
  obtain evs where evs: "trace s' = trace s2 @ evs"
      "api_calls evs = [ApiCheckGenerationStatus j, ApiGetGeneratedImageResult j]"
    using tick_done_returned(3)[OF job2 third fetch t3'] by blast
  have "trace s' = trace s @ ([ApiCheckGenerationStatus j, SetRequestStatus (Some st1),
      ApiCheckGenerationStatus j, SetRequestStatus (Some st2)] @ evs)"
    using evs(1) trace2 by simp
  moreover have "api_calls ([ApiCheckGenerationStatus j, SetRequestStatus (Some st1),
      ApiCheckGenerationStatus j, SetRequestStatus (Some st2)] @ evs) =
      [ApiCheckGenerationStatus j, ApiCheckGenerationStatus j,
       ApiCheckGenerationStatus j, ApiGetGeneratedImageResult j]"
    using evs(2) by (simp add: api_calls_def)
  ultimately have calls: "\<exists>evs. trace s' = trace s @ evs \<and>
            api_calls evs =
              [ApiCheckGenerationStatus j, ApiCheckGenerationStatus j,
               ApiCheckGenerationStatus j, ApiGetGeneratedImageResult j]"
    by blast
  have "inProgress s' = None"
    using tick_done_returned(1)[OF job2 third fetch t3'] .
  moreover have "db_jobs s' = []"
    using tick_done_returned(2)[OF job2 third fetch t3'] jobs2 by simp
  ultimately show ?thesis using calls by blast
qed

theorem polling_done_sequence_witness:
  "fst (run [Tick pending_env0, Tick pending_env0, Tick done_env0] polling0)
     = [Returned, Returned, Returned]
   \<and> inProgress (snd (run [Tick pending_env0, Tick pending_env0, Tick done_env0] polling0)) = None
   \<and> db_jobs (snd (run [Tick pending_env0, Tick pending_env0, Tick done_env0] polling0)) = []"
proof -
  let ?r = "run [Tick pending_env0, Tick pending_env0, Tick done_env0] polling0"
  have outs: "fst ?r = [Returned, Returned, Returned]"
    by (simp add: tick_def downloadImages_def Let_def effect_defs polling0_def idle0_def
        job0_def md0_def env0_def res0_def gen0_def gen1_def
        pending_env0_def done_env0_def pending0_def done0_def)
  then have r: "?r = ([Returned, Returned, Returned], snd ?r)"
    by (metis prod.collapse)
  have h: "inProgress polling0 = Some job0" "db_jobs polling0 = [job0]"
    "api_checkGenerationStatus pending_env0 job0 = Success pending0"
    "is_possible pending0" "\<not> is_done pending0"
    "api_checkGenerationStatus done_env0 job0 = Success done0"
    "is_possible done0" "is_done done0"
    "api_getGeneratedImageResult done_env0 job0 = Success res0"
    "[Returned, Returned, Returned] ! 2 = Returned"
    by (simp_all add: polling0_def idle0_def job0_def md0_def env0_def res0_def gen0_def gen1_def
        pending_env0_def done_env0_def pending0_def done0_def)
  show ?thesis
    using polling_done_sequence[OF h(1,2) h(3,4,5) h(3,4,5) h(6,7,8) h(9) r h(10)] outs
    by simp
qed



section \<open>Submission\<close>




text \<open>
  Claim C4, as the code has it. The form is valid, no job is in progress, in memory or
  persisted, the API accepts the submission with a job, and while the call is in flight
  the form is not edited and no other submission runs (ticks of the polling loop may).
  Then exactly one JobInProgress is persisted, it is the job held in memory, and the
  metadata persisted for it is its id with the width and the height of the submitted
  options.
\<close>

theorem generateImage_success_undisturbed:
  assumes "form_valid (form s)" "inProgress s = None" "db_jobs s = []"
    "api_generateImage e (formAsOptions (form s)) = Success job"
    "list_all is_polling_tick (d1 @ d2 @ d3)"
  shows "\<exists>s'. generateImage_interleaved e d1 d2 d3 s = (Returned, s')
      \<and> db_jobs s' = [job]
      \<and> inProgress s' = Some job
      \<and> fst (getJobMetadata job s') =
          Some \<lparr>requestId = job_id job,
                md_width = o_width (formAsOptions (form s)),
                md_height = o_height (formAsOptions (form s))\<rparr>
      \<and> loading s' = False"
proof -
  have ticks: "list_all is_polling_tick d1" "list_all is_polling_tick d2"
    "list_all is_polling_tick d3"
    using assms(5) by simp_all
  have quiet: "\<And>d t. list_all is_polling_tick d \<Longrightarrow> inProgress t = None \<Longrightarrow> interrupts d t = t"
    using interrupts_ticks_idle by blast
  show ?thesis
    using assms(1-4)
    by (cases "result s")
      (simp_all add: generateImage_interleaved_def Let_def effect_defs quiet[OF ticks(1)]
        quiet[OF ticks(2)] quiet[OF ticks(3)])
qed

theorem generateImage_success_undisturbed_witness:
  "db_jobs (snd (generateImage_interleaved done_env0 [Concurrent (Tick pending_env0)] []
       [Concurrent (Tick done_env0)] idle0)) = [job0]
   \<and> inProgress (snd (generateImage_interleaved done_env0 [Concurrent (Tick pending_env0)] []
       [Concurrent (Tick done_env0)] idle0)) = Some job0
   \<and> fst (getJobMetadata job0 (snd (generateImage_interleaved done_env0
       [Concurrent (Tick pending_env0)] [] [Concurrent (Tick done_env0)] idle0))) =
        Some \<lparr>requestId = ''job-1'', md_width = 768, md_height = 512\<rparr>"
proof -
  have h: "form_valid (form idle0)" "inProgress idle0 = None" "db_jobs idle0 = []"
    "api_generateImage done_env0 (formAsOptions (form idle0)) = Success job0"
    "list_all is_polling_tick
       ([Concurrent (Tick pending_env0)] @ [] @ [Concurrent (Tick done_env0)])"
    by (simp_all add: idle0_def job0_def form0_def env0_def done_env0_def form_defs)
  have o: "o_width (formAsOptions (form idle0)) = 768"
    "o_height (formAsOptions (form idle0)) = 512" "job_id job0 = ''job-1''"
    by (simp_all add: idle0_def job0_def form0_def form_defs)
  show ?thesis using generateImage_success_undisturbed[OF h] o by auto
qed

text \<open>
  The claim C4 as it is worded, for every call whose preconditions hold, fails in three
  places. The width and the height stored are read from the form after the API has
  answered, so an edit of the form during the API call stores a width that was not
  submitted. The in-memory reference is written last, so a second submission during the
  API call passes the guard and two records are persisted. And the guard does not read
  the database, so a call in a state with a persisted job also ends with two records.
\<close>

theorem generateImage_success_counterexample:
  "form_valid (form idle0) \<and> inProgress idle0 = None \<and> db_jobs idle0 = []
   \<and> api_generateImage done_env0 (formAsOptions (form idle0)) = Success job0
   \<and> o_width (formAsOptions (form idle0)) = 768
   \<and> fst (getJobMetadata job0
        (snd (generateImage_interleaved done_env0 [FormEdit wide_form0] [] [] idle0)))
       = Some \<lparr>requestId = ''job-1'', md_width = 1024, md_height = 512\<rparr>
   \<and> db_jobs (snd (generateImage_interleaved done_env0 [Concurrent (Submit second_env0)] [] []
        idle0)) = [job1, job0]
   \<and> form_valid (form stale0) \<and> inProgress stale0 = None
   \<and> api_generateImage second_env0 (formAsOptions (form stale0)) = Success job1
   \<and> db_jobs (snd (generateImage_interleaved second_env0 [] [] [] stale0)) = [job0, job1]"
  by (simp add: generateImage_interleaved_def generateImage_def Let_def effect_defs form_defs
      wide_form0_def stale0_def idle0_def form0_def job0_def job1_def env0_def done_env0_def
      second_env0_def)

section \<open>Failures after a done status\<close>

text \<open>
  Claim C5. A job is in progress, the status check answers done (and possible), and the
  result fetch fails. Then the tick reports the API error and clears the busy state, and
  it leaves the job as it was: the in-memory reference, the persisted records and the
  metadata are unchanged, nothing is downloaded and the Result is not written.
\<close>

theorem tick_result_fetch_fails:
  assumes "inProgress s = Some j" "api_checkGenerationStatus e j = Success st"
    "is_possible st" "is_done st" "api_getGeneratedImageResult e j = Failure err"
  shows "\<exists>s'. tick e s = (Returned, s')
      \<and> trace s' = trace s @
           [ApiCheckGenerationStatus j, SetRequestStatus (Some st), SetLoading True,
            ApiGetGeneratedImageResult j,
            MessageError (app_error_api_error (message err) (rc err)), SetLoading False]
      \<and> loading s' = False
      \<and> inProgress s' = Some j
      \<and> db_jobs s' = db_jobs s
      \<and> db_metadata s' = db_metadata s
      \<and> result s' = result s"
  using assms by (simp add: tick_def Let_def effect_defs)

theorem tick_result_fetch_fails_witness:
  "fst (tick failing_env0 polling0) = Returned
   \<and> inProgress (snd (tick failing_env0 polling0)) = Some job0
   \<and> db_jobs (snd (tick failing_env0 polling0)) = [job0]
   \<and> result (snd (tick failing_env0 polling0)) = None
   \<and> loading (snd (tick failing_env0 polling0)) = False"
proof -
  have h: "inProgress polling0 = Some job0"
    "api_checkGenerationStatus failing_env0 job0 = Success done0"
    "is_possible done0" "is_done done0"
    "api_getGeneratedImageResult failing_env0 job0 = Failure err0"
    by (simp_all add: polling0_def idle0_def job0_def md0_def env0_def failing_env0_def
        done0_def err0_def)
  have l: "db_jobs polling0 = [job0]" "result polling0 = None"
    by (simp_all add: polling0_def idle0_def job0_def md0_def env0_def failing_env0_def
        done0_def err0_def)
  show ?thesis using tick_result_fetch_fails[OF h] l by auto
qed

section \<open>The result materialiser\<close>

text \<open>
  Claim C6, on the code as it is. The claim says that a failed binary fetch is reported
  to the user. When the request for the image is rejected, \<open>await Promise.all\<close>
  throws: \<open>downloadImages\<close> ends there with the rejection, after the request and
  nothing else, so no message reaches the message service (and no Result is written).
\<close>

theorem downloadImages_fetch_rejected:
  "http_get rejecting_env0 (img gen0) = Rejected
   \<and> downloadImages rejecting_env0 single0 (Some md0) polling0 =
       (Threw FetchRejected, polling0\<lparr>trace := [HttpGet ''https://img/first'']\<rparr>)
   \<and> \<not> (\<exists>m. MessageError m
          \<in> set (trace (snd (downloadImages rejecting_env0 single0 (Some md0) polling0))))"
  by (simp add: downloadImages_def Let_def effect_defs polling0_def idle0_def job0_def
      md0_def env0_def rejecting_env0_def single0_def gen0_def)

text \<open>
  Claim C7. The list of generations is not empty, the metadata is cached, and the binary
  fetch yields a first body that is not empty. Then the Result that is written has the
  width and the height of the metadata, the worker id and name, model, seed, id and
  censorship flag of the first generation, and the kudos of the server response. The
  generations after the first contribute nothing: any other response with the same first
  generation and the same kudos gives the same Result.
\<close>

theorem downloadImages_result_fields:
  assumes "generations res = g # rest"
    "promise_all (map (\<lambda>x. http_get e (img x)) (generations res)) = Some (Some b # bodies)"
  shows "\<exists>s'. downloadImages e res (Some md) s = (Returned, s')
      \<and> result s' =
          Some \<lparr>r_width = md_width md, r_height = md_height md, source = next_url s,
                workerId = worker_id g, workerName = worker_name g, r_model = g_model g,
                r_seed = g_seed g, r_id = g_id g, r_censored = g_censored g,
                r_kudos = kudos res\<rparr>
      \<and> (\<forall>e2 res2 rest2 b2 bodies2.
            generations res2 = g # rest2 \<and> kudos res2 = kudos res
            \<and> promise_all (map (\<lambda>x. http_get e2 (img x)) (generations res2))
                = Some (Some b2 # bodies2)
            \<longrightarrow> result (snd (downloadImages e2 res2 (Some md) s)) = result s')"
proof -
  obtain s' where s': "downloadImages e res (Some md) s = (Returned, s')"
    "result s' =
       Some \<lparr>r_width = md_width md, r_height = md_height md, source = next_url s,
             workerId = worker_id g, workerName = worker_name g, r_model = g_model g,
             r_seed = g_seed g, r_id = g_id g, r_censored = g_censored g,
             r_kudos = kudos res\<rparr>"
    using downloadImages_builds[OF assms] by blast
  have "result (snd (downloadImages e2 res2 (Some md) s)) = result s'"
    if "generations res2 = g # rest2" "kudos res2 = kudos res"
      "promise_all (map (\<lambda>x. http_get e2 (img x)) (generations res2))
         = Some (Some b2 # bodies2)"
    for e2 res2 rest2 b2 bodies2
    using downloadImages_builds[OF that(1,3), of md s] that(2) s'(2) by auto
  then show ?thesis using s' by blast
qed

theorem downloadImages_result_fields_witness:
  "result (snd (downloadImages done_env0 res0 (Some md0) polling0)) =
     Some \<lparr>r_width = 768, r_height = 512, source = 0, workerId = ''w-1'',
           workerName = ''alpha'', r_model = ''stable_diffusion'', r_seed = ''1234'',
           r_id = ''g-1'', r_censored = False, r_kudos = 10\<rparr>"
proof -
  have h: "generations res0 = gen0 # [gen1]"
    "promise_all (map (\<lambda>x. http_get done_env0 (img x)) (generations res0))
       = Some (Some ''PNG'' # [Some ''PNG''])"
    by (simp_all add: polling0_def idle0_def job0_def md0_def env0_def res0_def gen0_def gen1_def
        done_env0_def)
  show ?thesis
    using downloadImages_result_fields[OF h, of md0 polling0]
    by (auto simp: polling0_def idle0_def job0_def md0_def env0_def res0_def gen0_def gen1_def
        done_env0_def)
qed

section \<open>Object URLs\<close>

text \<open>
  Claim C8. The form is valid, no job is in progress and a Result is on display, its
  object URL one that the URL store has minted. Then \<open>generateImage\<close> revokes that URL
  and clears the Result before it calls the API: these are its first effects, in this
  order. Afterwards the URL is not live and no Result refers to it, and whatever
  activations follow, no Result ever refers to the released URL again.
\<close>

theorem generateImage_releases_previous:
  assumes "form_valid (form s)" "inProgress s = None" "result s = Some r"
    "source r < next_url s"
  shows "\<exists>s' rest. generateImage e s = (Returned, s')
      \<and> trace s' = trace s @
           [SetLoading True, RevokeObjectURL (source r), SetResult None,
            ApiGenerateImage (formAsOptions (form s))] @ rest
      \<and> result s' = None
      \<and> source r \<notin> set (live_urls s')
      \<and> (\<forall>as r'. result (snd (run as s')) = Some r' \<longrightarrow> source r' \<noteq> source r)"
proof -
  obtain s' where g: "generateImage e s = (Returned, s')"
    by (cases "generateImage e s")
      (auto simp: generateImage_def Let_def split: if_splits ApiResponse.splits)
  have tr: "\<exists>rest. trace s' = trace s @
           [SetLoading True, RevokeObjectURL (source r), SetResult None,
            ApiGenerateImage (formAsOptions (form s))] @ rest"
    using g assms(1-3)
    by (auto simp: generateImage_def Let_def effect_defs split: ApiResponse.splits)
  have res: "result s' = None"
    using g assms(1-3)
    by (auto simp: generateImage_def Let_def effect_defs split: ApiResponse.splits)
  have live: "source r \<notin> set (live_urls s')"
    using g assms(1-3)
    by (auto simp: generateImage_def Let_def effect_defs split: ApiResponse.splits)
  have nxt: "next_url s' = next_url s"
    using g assms(1-3)
    by (auto simp: generateImage_def Let_def effect_defs split: ApiResponse.splits)
  have ret: "handle_retired (source r) s'"
    using res nxt assms(4) by (simp add: handle_retired_def)
  have later: "\<forall>as r'. result (snd (run as s')) = Some r' \<longrightarrow> source r' \<noteq> source r"
  proof (intro allI impI)
    fix as r'
    assume a: "result (snd (run as s')) = Some r'"
    have "handle_retired (source r) (snd (run as s'))"
      using run_retired[OF ret, of as "fst (run as s')" "snd (run as s')"] by simp
    with a show "source r' \<noteq> source r" by (simp add: handle_retired_def)
  qed
  show ?thesis using g tr res live later by blast
qed

theorem generateImage_releases_previous_witness:
  "take 4 (trace (snd (generateImage done_env0 displaying0))) =
     [SetLoading True, RevokeObjectURL 0, SetResult None,
      ApiGenerateImage (formAsOptions form0)]
   \<and> result (snd (generateImage done_env0 displaying0)) = None
   \<and> live_urls (snd (generateImage done_env0 displaying0)) = []
   \<and> result (snd (run [Tick done_env0] (snd (generateImage done_env0 displaying0)))) =
       Some \<lparr>r_width = 768, r_height = 512, source = 1, workerId = ''w-1'',
             workerName = ''alpha'', r_model = ''stable_diffusion'', r_seed = ''1234'',
             r_id = ''g-1'', r_censored = False, r_kudos = 10\<rparr>"
proof -
  have h: "form_valid (form displaying0)" "inProgress displaying0 = None"
    "result displaying0 = Some shown0" "source shown0 < next_url displaying0"
    by (simp_all add: displaying0_def idle0_def shown0_def job0_def form0_def env0_def
        done_env0_def done0_def res0_def gen0_def gen1_def form_defs)
  have ev: "take 4 (trace (snd (generateImage done_env0 displaying0))) =
     [SetLoading True, RevokeObjectURL 0, SetResult None,
      ApiGenerateImage (formAsOptions form0)]"
    "live_urls (snd (generateImage done_env0 displaying0)) = []"
    "result (snd (run [Tick done_env0] (snd (generateImage done_env0 displaying0)))) =
       Some \<lparr>r_width = 768, r_height = 512, source = 1, workerId = ''w-1'',
             workerName = ''alpha'', r_model = ''stable_diffusion'', r_seed = ''1234'',
             r_id = ''g-1'', r_censored = False, r_kudos = 10\<rparr>"
    by (simp_all add: generateImage_def tick_def downloadImages_def Let_def effect_defs
        displaying0_def idle0_def shown0_def job0_def form0_def env0_def
        done_env0_def done0_def res0_def gen0_def gen1_def form_defs)
  show ?thesis
    using generateImage_releases_previous[OF h, of done_env0] ev by auto
qed

section \<open>The unreachable error\<close>

text \<open>
  Claim C9. With each tick run to its end before the next activation, no tick ends with
  the error "Job cannot be null": a tick returns at once when the in-memory reference is
  empty, and where the done branch resolves the job the reference is still the job of
  the guard. So the error appears in no run of the component.
\<close>

theorem job_cannot_be_null_unreachable:
  "fst (tick e s) \<noteq> Threw JobCannotBeNull
   \<and> (inProgress s = None \<longrightarrow> tick e s = (Returned, s))
   \<and> Threw JobCannotBeNull \<notin> set (fst (run as s))"
  using tick_never_job_null tick_idle run_never_job_null by blast

theorem job_cannot_be_null_unreachable_witness:
  "inProgress idle0 = None \<and> tick done_env0 idle0 = (Returned, idle0)
   \<and> fst (tick done_env0 polling0) = Returned
   \<and> Threw JobCannotBeNull \<notin> set (fst (run [Tick pending_env0, Tick done_env0] polling0))"
proof -
  have h: "inProgress idle0 = None" by (simp add: idle0_def)
  have d: "fst (tick done_env0 polling0) = Returned"
    by (simp add: tick_def downloadImages_def Let_def effect_defs polling0_def idle0_def
        job0_def md0_def env0_def res0_def gen0_def gen1_def
        done_env0_def done0_def)
  show ?thesis
    using job_cannot_be_null_unreachable[of done_env0 idle0 "[Tick pending_env0, Tick done_env0]"]
      job_cannot_be_null_unreachable[of done_env0 polling0 "[Tick pending_env0, Tick done_env0]"]
      h d
    by simp
qed

section \<open>A done job whose image is empty\<close>

text \<open>
  Claim C10. A job is in progress, the status check answers done (and possible), the
  result fetch succeeds, and the download resolves with an empty first body. Then the
  tick reports the failed download, writes no Result, and all the same deletes the
  persisted record of the job and clears the in-memory reference.
\<close>

theorem tick_done_empty_body:
  assumes "inProgress s = Some j" "api_checkGenerationStatus e j = Success st"
    "is_possible st" "is_done st" "api_getGeneratedImageResult e j = Success res"
    "promise_all (map (\<lambda>x. http_get e (img x)) (generations res)) = Some (None # bodies)"
  shows "\<exists>s'. tick e s = (Returned, s')
      \<and> trace s' = trace s @
           [ApiCheckGenerationStatus j, SetRequestStatus (Some st), SetLoading True,
            ApiGetGeneratedImageResult j, DbGetJobMetadata j]
           @ map (\<lambda>x. HttpGet (img x)) (generations res)
           @ [MessageError app_error_image_download_failed, DbDeleteInProgressJob j,
              SetInProgress None, SetLoading False]
      \<and> db_jobs s' = filter (\<lambda>x. job_id x \<noteq> job_id j) (db_jobs s)
      \<and> j \<notin> set (db_jobs s')
      \<and> inProgress s' = None
      \<and> result s' = result s
      \<and> loading s' = False"
  using assms
  by (simp add: tick_def downloadImages_def Let_def effect_defs start_requests_fields
      start_requests_trace)

theorem tick_done_empty_body_witness:
  "fst (tick empty_body_env0 polling0) = Returned
   \<and> db_jobs (snd (tick empty_body_env0 polling0)) = []
   \<and> inProgress (snd (tick empty_body_env0 polling0)) = None
   \<and> result (snd (tick empty_body_env0 polling0)) = None"
proof -
  have h: "inProgress polling0 = Some job0"
    "api_checkGenerationStatus empty_body_env0 job0 = Success done0"
    "is_possible done0" "is_done done0"
    "api_getGeneratedImageResult empty_body_env0 job0 = Success res0"
    "promise_all (map (\<lambda>x. http_get empty_body_env0 (img x)) (generations res0))
       = Some (None # [None])"
    by (simp_all add: polling0_def idle0_def job0_def md0_def env0_def res0_def gen0_def gen1_def
        empty_body_env0_def done0_def)
  have l: "db_jobs polling0 = [job0]" "result polling0 = None"
    by (simp_all add: polling0_def idle0_def job0_def md0_def env0_def res0_def gen0_def gen1_def
        empty_body_env0_def done0_def)
  show ?thesis using tick_done_empty_body[OF h] l by auto
qed

end
